theory Spec2Isabelle
  imports Complex_Main
begin

section \<open>Python values met by \<^verbatim>\<open>streamlit_app.py\<close>\<close>

text \<open>
  A decoded JSON document, as \<^verbatim>\<open>Response.json()\<close> hands it to the program: \<open>None\<close>,
  a bool, a number, a \<open>str\<close>, a \<open>list\<close> or a \<open>dict\<close> with string keys. A \<open>dict\<close> is an
  association list looked up with \<open>map_of\<close>. Numbers are exact reals; the split between
  Python's \<open>int\<close> and \<open>float\<close> decides nothing in the program.
\<close>

datatype json =
    JNull
  | JBool bool
  | JNum real
  | JStr string
  | JArr "json list"
  | JObj "(string \<times> json) list"

text \<open>
  The exceptions that the modelled statements can raise. \<open>KeyError\<close> carries the key that
  was not found (\<open>''0''\<close> for the integer key \<open>0\<close>), \<open>NotInIndex\<close> is the \<open>KeyError\<close> of a
  pandas column selection and carries the missing labels, and \<open>Raised\<close> is any exception
  of an external collaborator (pandas, joblib, the model).
\<close>

datatype pyerr =
    KeyError string
  | TypeError
  | IndexError
  | NotInIndex "string list"
  | Raised string

definition bind :: "pyerr + 'a \<Rightarrow> ('a \<Rightarrow> pyerr + 'b) \<Rightarrow> pyerr + 'b" where
  "bind m f = (case m of Inl e \<Rightarrow> Inl e | Inr x \<Rightarrow> f x)"

text \<open>\<^verbatim>\<open>needle in hay\<close> for two strings: \<open>needle\<close> occurs in \<open>hay\<close> as a contiguous run.\<close>

fun starts_with :: "string \<Rightarrow> string \<Rightarrow> bool" where
  "starts_with [] hay = True"
| "starts_with (c # cs) [] = False"
| "starts_with (c # cs) (h # hs) = (c = h \<and> starts_with cs hs)"

fun occurs_in :: "string \<Rightarrow> string \<Rightarrow> bool" where
  "occurs_in needle [] = (needle = [])"
| "occurs_in needle (h # hs) = (starts_with needle (h # hs) \<or> occurs_in needle hs)"

text \<open>
  \<^verbatim>\<open>k in v\<close> for a string \<open>k\<close>: key membership on a \<open>dict\<close>, element membership on a
  \<open>list\<close>, substring test on a \<open>str\<close>, and \<open>TypeError\<close> (argument is not iterable) on
  \<open>None\<close>, a bool or a number.
\<close>

fun py_in :: "string \<Rightarrow> json \<Rightarrow> pyerr + bool" where
  "py_in k (JObj kvs) = Inr (map_of kvs k \<noteq> None)"
| "py_in k (JArr xs) = Inr (List.member xs (JStr k))"
| "py_in k (JStr s) = Inr (occurs_in k s)"
| "py_in k JNull = Inl TypeError"
| "py_in k (JBool b) = Inl TypeError"
| "py_in k (JNum r) = Inl TypeError"

text \<open>
  \<^verbatim>\<open>v[k]\<close> for a string \<open>k\<close>: the value on a \<open>dict\<close> (\<open>KeyError\<close> when the key is
  missing), \<open>TypeError\<close> on everything else (list and string indices must be integers, the
  other values are not subscriptable).
\<close>

fun py_getitem :: "json \<Rightarrow> string \<Rightarrow> pyerr + json" where
  "py_getitem (JObj kvs) k = (case map_of kvs k of None \<Rightarrow> Inl (KeyError k) | Some v \<Rightarrow> Inr v)"
| "py_getitem (JArr xs) k = Inl TypeError"
| "py_getitem (JStr s) k = Inl TypeError"
| "py_getitem JNull k = Inl TypeError"
| "py_getitem (JBool b) k = Inl TypeError"
| "py_getitem (JNum r) k = Inl TypeError"

text \<open>
  \<^verbatim>\<open>v[0]\<close>: the first element of a \<open>list\<close> or the first character of a \<open>str\<close>
  (\<open>IndexError\<close> when empty), \<open>KeyError\<close> on a \<open>dict\<close> (a decoded JSON object has string
  keys only), \<open>TypeError\<close> on the values that are not subscriptable.
\<close>

fun py_first :: "json \<Rightarrow> pyerr + json" where
  "py_first (JArr []) = Inl IndexError"
| "py_first (JArr (x # xs)) = Inr x"
| "py_first (JStr []) = Inl IndexError"
| "py_first (JStr (c # cs)) = Inr (JStr [c])"
| "py_first (JObj kvs) = Inl (KeyError ''0'')"
| "py_first JNull = Inl TypeError"
| "py_first (JBool b) = Inl TypeError"
| "py_first (JNum r) = Inl TypeError"

text \<open>Truth value testing, as \<^verbatim>\<open>not v\<close> uses it.\<close>

fun truthy :: "json \<Rightarrow> bool" where
  "truthy JNull = False"
| "truthy (JBool b) = b"
| "truthy (JNum r) = (r \<noteq> 0)"
| "truthy (JStr s) = (s \<noteq> [])"
| "truthy (JArr xs) = (xs \<noteq> [])"
| "truthy (JObj kvs) = (kvs \<noteq> [])"

section \<open>The outside world\<close>

text \<open>
  The three HTTP GET requests of the program. The URL is an f-string over the arguments;
  the model keeps the endpoint and the arguments that are formatted into it (for the two
  data endpoints: latitude, longitude, start date, end date).
\<close>

datatype request =
    Geocoding string
  | AirQuality json json string string
  | Archive json json string string

text \<open>
  \<^verbatim>\<open>requests.get(url, timeout=10).json()\<close> either raises (transport failure, timeout,
  a body that is not JSON), with the text of the exception, or returns the decoded body.
\<close>

datatype response = Failed string | Body json

type_synonym world = "request \<Rightarrow> response"

text \<open>
  A pandas table as far as the fetchers and the button handler look at it: the named
  columns in order, each with its values. \<^verbatim>\<open>pd.DataFrame()\<close> has no columns;
  \<open>.empty\<close> holds when there are no columns or no rows.
\<close>

type_synonym frame = "(string \<times> json list) list"

definition empty_frame :: frame where
  "empty_frame = []"

definition is_empty :: "frame \<Rightarrow> bool" where
  "is_empty f = (case f of [] \<Rightarrow> True | (c, vs) # rest \<Rightarrow> vs = [])"

text \<open>
  \<^verbatim>\<open>pd.DataFrame({...})\<close> on a dict of column data is pandas' own: a parameter of
  the fetchers, of this type.
\<close>

type_synonym frame_ctor = "(string \<times> json) list \<Rightarrow> pyerr + frame"

section \<open>What a run does\<close>

text \<open>
  One day of the daily feature table: the five columns that the program reads. A cell is
  a number (a float, taken as an exact real) or NaN. The timestamp is the calendar day of
  the row.
\<close>

datatype cell = Num real | NaN

record date =
  year :: int
  month :: nat
  day :: nat

record daily_row =
  timestamp :: date
  pm25 :: cell
  temperature :: cell
  relativehumidity :: cell
  windspeed :: cell

text \<open>A value of the \<open>X_pred\<close> dict: a table cell, or the integer day of the year.\<close>

datatype pyval = Cell cell | PyInt int

text \<open>
  The effects of a run, in order: HTTP requests, Streamlit calls, the model being loaded
  and the model being asked for a prediction.
\<close>

datatype event =
    Get request
  | St_error string
  | St_warning string
  | St_write date cell
  | St_success cell
  | St_line_chart "(date \<times> cell) list"
  | St_download_button string
  | Load_model
  | Predict "(string \<times> pyval) list"

section \<open>Coordinate resolver and observation fetchers\<close>

text \<open>Lines 15 to 19 of \<^verbatim>\<open>get_city_coordinates\<close>, on a decoded body.\<close>

definition coordinates_of :: "json \<Rightarrow> pyerr + json \<times> json" where
  "coordinates_of resp =
     bind (py_in ''results'' resp) (\<lambda>has.
     bind (if \<not> has then Inr True
           else bind (py_getitem resp ''results'') (\<lambda>r. Inr (\<not> truthy r))) (\<lambda>absent.
     if absent then Inr (JNull, JNull)
     else
       bind (py_getitem resp ''results'') (\<lambda>r1.
       bind (py_first r1) (\<lambda>e1.
       bind (py_getitem e1 ''latitude'') (\<lambda>lat.
       bind (py_getitem resp ''results'') (\<lambda>r2.
       bind (py_first r2) (\<lambda>e2.
       bind (py_getitem e2 ''longitude'') (\<lambda>lon.
       Inr (lat, lon)))))))))"

definition get_city_coordinates :: "world \<Rightarrow> string \<Rightarrow> event list \<times> (pyerr + json \<times> json)" where
  "get_city_coordinates w city =
     (case w (Geocoding city) of
        Failed e \<Rightarrow>
          ([Get (Geocoding city), St_error (''Error fetching city coordinates: '' @ e)],
           Inr (JNull, JNull))
      | Body resp \<Rightarrow> ([Get (Geocoding city)], coordinates_of resp))"

text \<open>Lines 36 to 42 of \<^verbatim>\<open>fetch_pm25\<close>, on a decoded body.\<close>

definition pm25_table :: "frame_ctor \<Rightarrow> json \<Rightarrow> pyerr + frame" where
  "pm25_table mk resp =
     bind (py_in ''hourly'' resp) (\<lambda>has.
     bind (if \<not> has then Inr True
           else bind (py_getitem resp ''hourly'') (\<lambda>h.
                bind (py_in ''pm2_5'' h) (\<lambda>p. Inr (\<not> p)))) (\<lambda>absent.
     if absent then Inr empty_frame
     else
       bind (py_getitem resp ''hourly'') (\<lambda>h1.
       bind (py_getitem h1 ''time'') (\<lambda>t.
       bind (py_getitem resp ''hourly'') (\<lambda>h2.
       bind (py_getitem h2 ''pm2_5'') (\<lambda>p.
       mk [(''timestamp'', t), (''pm25'', p)]))))))"

definition fetch_pm25 ::
  "frame_ctor \<Rightarrow> world \<Rightarrow> string \<Rightarrow> string \<Rightarrow> string \<Rightarrow> event list \<times> (pyerr + frame)" where
  "fetch_pm25 mk w city start_date end_date =
     (case get_city_coordinates w city of
        (evs, Inl e) \<Rightarrow> (evs, Inl e)
      | (evs, Inr (lat, lon)) \<Rightarrow>
          if lat = JNull then (evs, Inr empty_frame)
          else
            (case w (AirQuality lat lon start_date end_date) of
               Failed e \<Rightarrow>
                 (evs @ [Get (AirQuality lat lon start_date end_date),
                         St_error (''Error fetching PM2.5 data: '' @ e)],
                  Inr empty_frame)
             | Body resp \<Rightarrow>
                 (evs @ [Get (AirQuality lat lon start_date end_date)], pm25_table mk resp)))"

text \<open>
  The generator of line 59, \<^verbatim>\<open>all(k in resp["hourly"] for k in [...])\<close>: each key
  looks \<open>resp["hourly"]\<close> up again, and the first key that is missing ends the scan.
\<close>

fun all_in_hourly :: "json \<Rightarrow> string list \<Rightarrow> pyerr + bool" where
  "all_in_hourly resp [] = Inr True"
| "all_in_hourly resp (k # ks) =
     bind (py_getitem resp ''hourly'') (\<lambda>h.
     bind (py_in k h) (\<lambda>b.
     if b then all_in_hourly resp ks else Inr False))"

text \<open>Lines 59 to 67 of \<^verbatim>\<open>fetch_weather\<close>, on a decoded body.\<close>

definition weather_table :: "frame_ctor \<Rightarrow> json \<Rightarrow> pyerr + frame" where
  "weather_table mk resp =
     bind (py_in ''hourly'' resp) (\<lambda>has.
     bind (if \<not> has then Inr True
           else bind (all_in_hourly resp
                        [''temperature_2m'', ''relative_humidity_2m'', ''windspeed_10m''])
                  (\<lambda>a. Inr (\<not> a))) (\<lambda>absent.
     if absent then Inr empty_frame
     else
       bind (py_getitem resp ''hourly'') (\<lambda>h1.
       bind (py_getitem h1 ''time'') (\<lambda>t.
       bind (py_getitem resp ''hourly'') (\<lambda>h2.
       bind (py_getitem h2 ''temperature_2m'') (\<lambda>tmp.
       bind (py_getitem resp ''hourly'') (\<lambda>h3.
       bind (py_getitem h3 ''relative_humidity_2m'') (\<lambda>rh.
       bind (py_getitem resp ''hourly'') (\<lambda>h4.
       bind (py_getitem h4 ''windspeed_10m'') (\<lambda>ws.
       mk [(''timestamp'', t), (''temperature'', tmp),
           (''relativehumidity'', rh), (''windspeed'', ws)]))))))))))"

definition fetch_weather ::
  "frame_ctor \<Rightarrow> world \<Rightarrow> string \<Rightarrow> string \<Rightarrow> string \<Rightarrow> event list \<times> (pyerr + frame)" where
  "fetch_weather mk w city start_date end_date =
     (case get_city_coordinates w city of
        (evs, Inl e) \<Rightarrow> (evs, Inl e)
      | (evs, Inr (lat, lon)) \<Rightarrow>
          if lat = JNull then (evs, Inr empty_frame)
          else
            (case w (Archive lat lon start_date end_date) of
               Failed e \<Rightarrow>
                 (evs @ [Get (Archive lat lon start_date end_date),
                         St_error (''Error fetching weather data: '' @ e)],
                  Inr empty_frame)
             | Body resp \<Rightarrow>
                 (evs @ [Get (Archive lat lon start_date end_date)], weather_table mk resp)))"

section \<open>Calendar days\<close>

text \<open>
  \<^verbatim>\<open>pd.to_datetime(ts) + pd.Timedelta(days=1)\<close> and \<^verbatim>\<open>.dayofyear\<close> on calendar days
  of the proleptic Gregorian calendar. The time of day of a timestamp does not change
  either, and the bounds of pandas' nanosecond timestamps (years 1677 to 2262) are not
  modelled.
\<close>

definition is_leap :: "int \<Rightarrow> bool" where
  "is_leap y = (y mod 4 = 0 \<and> (y mod 100 \<noteq> 0 \<or> y mod 400 = 0))"

definition days_in_month :: "int \<Rightarrow> nat \<Rightarrow> nat" where
  "days_in_month y m =
     (if m = 2 then (if is_leap y then 29 else 28)
      else if m = 4 \<or> m = 6 \<or> m = 9 \<or> m = 11 then 30
      else 31)"

definition valid_date :: "date \<Rightarrow> bool" where
  "valid_date d =
     (1 \<le> month d \<and> month d \<le> 12 \<and> 1 \<le> day d \<and> day d \<le> days_in_month (year d) (month d))"

definition add_one_day :: "date \<Rightarrow> date" where
  "add_one_day d =
     (if day d < days_in_month (year d) (month d) then d\<lparr>day := day d + 1\<rparr>
      else if month d < 12 then d\<lparr>month := month d + 1, day := 1\<rparr>
      else d\<lparr>year := year d + 1, month := 1, day := 1\<rparr>)"

definition dayofyear :: "date \<Rightarrow> int" where
  "dayofyear d = int (sum_list (map (days_in_month (year d)) [1..<month d]) + day d)"

section \<open>Forecast assembly\<close>

text \<open>
  \<^verbatim>\<open>df.iloc[i]\<close> (and \<^verbatim>\<open>series.iloc[i]\<close>) on the rows in order: a negative
  position counts from the end, a position outside the table raises \<open>IndexError\<close>.
\<close>

definition iloc :: "'a list \<Rightarrow> int \<Rightarrow> pyerr + 'a" where
  "iloc xs i =
     (if 0 \<le> i \<and> i < int (length xs) then Inr (xs ! nat i)
      else if i < 0 \<and> - i \<le> int (length xs) then Inr (xs ! nat (int (length xs) + i))
      else Inl IndexError)"

text \<open>
  \<^verbatim>\<open>series.rolling(3).mean()\<close>: the mean of each window of three consecutive values,
  NaN at the first two positions and wherever the window holds a NaN.
\<close>

fun mean3 :: "cell \<Rightarrow> cell \<Rightarrow> cell \<Rightarrow> cell" where
  "mean3 (Num a) (Num b) (Num c) = Num ((a + b + c) / 3)"
| "mean3 a b c = NaN"

definition rolling3_mean :: "cell list \<Rightarrow> cell list" where
  "rolling3_mean xs =
     map (\<lambda>i. if i < 2 then NaN else mean3 (xs ! (i - 2)) (xs ! (i - 1)) (xs ! i))
       [0..<length xs]"

text \<open>
  \<^verbatim>\<open>d[k] = v\<close> on a dict, which keeps its keys in insertion order: a key that is
  there keeps its place, a new key goes last.
\<close>

fun dict_set :: "string \<Rightarrow> 'v \<Rightarrow> (string \<times> 'v) list \<Rightarrow> (string \<times> 'v) list" where
  "dict_set k v [] = [(k, v)]"
| "dict_set k v ((k', v') # d) = (if k = k' then (k, v) # d else (k', v') # dict_set k v d)"

text \<open>Lines 107 to 109: the k-th row from the end when the table has k rows, else the last row.\<close>

definition lag_or_last :: "daily_row list \<Rightarrow> daily_row \<Rightarrow> nat \<Rightarrow> pyerr + cell" where
  "lag_or_last df_feats last_row k =
     (if length df_feats \<ge> k then bind (iloc df_feats (- int k)) (\<lambda>r. Inr (pm25 r))
      else Inr (pm25 last_row))"

text \<open>Lines 101 to 111: the dict \<open>X_pred\<close> built from the daily feature table.\<close>

definition assemble :: "daily_row list \<Rightarrow> pyerr + (string \<times> pyval) list" where
  "assemble df_feats =
     bind (iloc df_feats (- 1)) (\<lambda>last_row.
     let x1 = dict_set ''temperature'' (Cell (temperature last_row)) [];
         x2 = dict_set ''relativehumidity'' (Cell (relativehumidity last_row)) x1;
         x3 = dict_set ''windspeed'' (Cell (windspeed last_row)) x2;
         x4 = dict_set ''pm25_lag_1'' (Cell (pm25 last_row)) x3
     in
     bind (lag_or_last df_feats last_row 2) (\<lambda>lag2.
     let x5 = dict_set ''pm25_lag_2'' (Cell lag2) x4 in
     bind (lag_or_last df_feats last_row 3) (\<lambda>lag3.
     let x6 = dict_set ''pm25_lag_3'' (Cell lag3) x5 in
     bind (lag_or_last df_feats last_row 7) (\<lambda>lag7.
     let x7 = dict_set ''pm25_lag_7'' (Cell lag7) x6 in
     bind (iloc (rolling3_mean (map pm25 df_feats)) (- 1)) (\<lambda>ma3.
     let x8 = dict_set ''pm25_ma_3'' (Cell ma3) x7;
         x9 = dict_set ''dayofyear'' (PyInt (dayofyear (add_one_day (timestamp last_row)))) x8
     in Inr x9)))))"

text \<open>
  Line 114, \<^verbatim>\<open>pd.DataFrame([X_pred])[feature_cols]\<close>: the one-row table of the dict,
  then the columns named by the list, in the order of the list. A label that is not a
  column raises (pandas' \<open>KeyError\<close>, naming the missing labels).
\<close>

definition select_columns :: "string list \<Rightarrow> (string \<times> pyval) list \<Rightarrow> pyerr + (string \<times> pyval) list" where
  "select_columns feature_cols x_pred =
     (let missing = filter (\<lambda>c. map_of x_pred c = None) feature_cols
      in if missing = [] then Inr (map (\<lambda>c. (c, the (map_of x_pred c))) feature_cols)
         else Inl (NotInIndex missing))"

text \<open>
  The model is opaque: \<^verbatim>\<open>model.predict(X_pred_df)[0]\<close> is a function of the one-row
  table it is given, and may raise.
\<close>

type_synonym model = "(string \<times> pyval) list \<Rightarrow> pyerr + cell"

text \<open>Lines 114 to 117: column selection, then the model.\<close>

definition predict_step :: "model \<Rightarrow> string list \<Rightarrow> (string \<times> pyval) list \<Rightarrow> pyerr + cell" where
  "predict_step mdl feature_cols x_pred =
     bind (select_columns feature_cols x_pred) (\<lambda>x_pred_df. mdl x_pred_df)"

section \<open>The button handler\<close>

text \<open>
  A run ends normally (\<open>None\<close>) or with an exception that reaches Streamlit (\<open>Some e\<close>);
  either way the effects up to that point have happened.

  Lines 97 to 130. \<open>artifact\<close> is what \<^verbatim>\<open>load_model()\<close> returns or raises.
\<close>

definition forecast_block ::
  "(pyerr + model \<times> string list) \<Rightarrow> string \<Rightarrow> daily_row list \<Rightarrow> event list \<times> pyerr option" where
  "forecast_block artifact city df_feats =
     (if length df_feats < 10
      then ([St_warning ''Not enough daily rows after feature creation for stable prediction.''], None)
      else
        (case artifact of
           Inl e \<Rightarrow> ([Load_model], Some e)
         | Inr (mdl, feature_cols) \<Rightarrow>
             (case assemble df_feats of
                Inl e \<Rightarrow> ([Load_model], Some e)
              | Inr x_pred \<Rightarrow>
                  (case select_columns feature_cols x_pred of
                     Inl e \<Rightarrow> ([Load_model], Some e)
                   | Inr x_pred_df \<Rightarrow>
                       (case mdl x_pred_df of
                          Inl e \<Rightarrow> ([Load_model, Predict x_pred_df], Some e)
                        | Inr y_pred \<Rightarrow>
                            ([Load_model, Predict x_pred_df,
                              St_write (timestamp (last df_feats)) (pm25 (last df_feats)),
                              St_success y_pred,
                              St_line_chart (map (\<lambda>r. (timestamp r, pm25 r)) df_feats),
                              St_download_button (city @ ''_daily_features.csv'')],
                             None))))))"

text \<open>
  Lines 86 to 96. \<^verbatim>\<open>make_daily_features\<close> is imported from a module that is not
  part of the file: \<open>mdf\<close> stands for it followed by \<^verbatim>\<open>reset_index()\<close>.
\<close>

definition on_button ::
  "frame_ctor \<Rightarrow> world \<Rightarrow> (frame \<Rightarrow> frame \<Rightarrow> pyerr + daily_row list) \<Rightarrow>
   (pyerr + model \<times> string list) \<Rightarrow> string \<Rightarrow> string \<Rightarrow> string \<Rightarrow> event list \<times> pyerr option" where
  "on_button mk w mdf artifact city start_date end_date =
     (case fetch_pm25 mk w city start_date end_date of
        (evs1, Inl e) \<Rightarrow> (evs1, Some e)
      | (evs1, Inr pm_df) \<Rightarrow>
          if is_empty pm_df
          then (evs1 @ [St_error ''No PM2.5 data found for that city/time. Try different dates or city name.''],
                None)
          else
            (case fetch_weather mk w city start_date end_date of
               (evs2, Inl e) \<Rightarrow> (evs1 @ evs2, Some e)
             | (evs2, Inr met_df) \<Rightarrow>
                 if is_empty met_df
                 then (evs1 @ evs2 @ [St_error ''Couldn't fetch meteorology.''], None)
                 else
                   (case mdf pm_df met_df of
                      Inl e \<Rightarrow> (evs1 @ evs2, Some e)
                    | Inr df_feats \<Rightarrow>
                        (case forecast_block artifact city df_feats of
                           (evs3, r) \<Rightarrow> (evs1 @ evs2 @ evs3, r)))))"

section \<open>Vocabulary of the properties\<close>

text \<open>The nine keys that lines 103 to 111 assign, in the order of assignment.\<close>

definition x_pred_keys :: "string list" where
  "x_pred_keys = [''temperature'', ''relativehumidity'', ''windspeed'', ''pm25_lag_1'',
     ''pm25_lag_2'', ''pm25_lag_3'', ''pm25_lag_7'', ''pm25_ma_3'', ''dayofyear'']"

text \<open>The last value of the rolling mean in closed form: the mean of the last three cells.\<close>

definition ma3_last :: "cell list \<Rightarrow> cell" where
  "ma3_last xs =
     (let n = length xs
      in if n < 3 then NaN else mean3 (xs ! (n - 3)) (xs ! (n - 2)) (xs ! (n - 1)))"

text \<open>A request to one of the two data endpoints (air quality, weather archive).\<close>

fun is_data_request :: "event \<Rightarrow> bool" where
  "is_data_request (Get (AirQuality lat lon s e)) = True"
| "is_data_request (Get (Archive lat lon s e)) = True"
| "is_data_request ev = False"

text \<open>
  The geocoding responses on which \<open>get_city_coordinates\<close> returns: a transport failure,
  an object without \<open>results\<close> or with a falsy \<open>results\<close>, an object whose \<open>results\<close> is a
  list that starts with an object holding \<open>latitude\<close> and \<open>longitude\<close>; and a top-level
  list or string in which \<open>"results"\<close> does not occur.
\<close>

fun first_entry_ok :: "json \<Rightarrow> bool" where
  "first_entry_ok (JArr (JObj ent # rest)) =
     (map_of ent ''latitude'' \<noteq> None \<and> map_of ent ''longitude'' \<noteq> None)"
| "first_entry_ok r = False"

fun geocoding_shape_ok :: "response \<Rightarrow> bool" where
  "geocoding_shape_ok (Failed e) = True"
| "geocoding_shape_ok (Body (JObj kvs)) =
     (case map_of kvs ''results'' of
        None \<Rightarrow> True
      | Some r \<Rightarrow> (if truthy r then first_entry_ok r else True))"
| "geocoding_shape_ok (Body (JArr xs)) = (\<not> List.member xs (JStr ''results''))"
| "geocoding_shape_ok (Body (JStr s)) = (\<not> occurs_in ''results'' s)"
| "geocoding_shape_ok (Body b) = False"

text \<open>
  What the resolver is to return on a response, in the words of the interface: the
  coordinates of the first result, and no coordinates when there is no first result with
  coordinates.
\<close>

fun spec_coordinates :: "response \<Rightarrow> json \<times> json" where
  "spec_coordinates (Body (JObj kvs)) =
     (case map_of kvs ''results'' of
        Some (JArr (JObj ent # rest)) \<Rightarrow>
          (case (map_of ent ''latitude'', map_of ent ''longitude'') of
             (Some lat, Some lon) \<Rightarrow> (lat, lon)
           | _ \<Rightarrow> (JNull, JNull))
      | _ \<Rightarrow> (JNull, JNull))"
| "spec_coordinates r = (JNull, JNull)"

section \<open>Sample inputs\<close>

text \<open>A geocoding answer for Delhi, and one that knows no such city.\<close>

definition delhi :: json where
  "delhi = JObj [(''results'', JArr [JObj [(''latitude'', JNum 28.65), (''longitude'', JNum 77.23)]])]"

definition nowhere :: world where
  "nowhere r = Body (JObj [])"

text \<open>A table constructor that takes each list as a column.\<close>

definition list_columns :: frame_ctor where
  "list_columns cols = Inr (map (\<lambda>(c, v). (c, (case v of JArr xs \<Rightarrow> xs | _ \<Rightarrow> [v]))) cols)"

text \<open>A world whose data endpoints answer with every hourly field but \<open>time\<close>.\<close>

definition w_no_time :: world where
  "w_no_time r =
     (case r of
        Geocoding c \<Rightarrow> Body delhi
      | AirQuality lat lon s e \<Rightarrow> Body (JObj [(''hourly'', JObj [(''pm2_5'', JArr [JNum 12])])])
      | Archive lat lon s e \<Rightarrow>
          Body (JObj [(''hourly'', JObj [(''temperature_2m'', JArr [JNum 20]),
                                        (''relative_humidity_2m'', JArr [JNum 40]),
                                        (''windspeed_10m'', JArr [JNum 3])])]))"

text \<open>A world whose geocoding answer has a first entry without coordinates.\<close>

definition w_bare_entry :: world where
  "w_bare_entry r = Body (JObj [(''results'', JArr [JObj [(''name'', JStr ''Delhi'')]])])"

text \<open>Daily rows with fixed weather; ten January days with rising pm25, ten December days
  with constant pm25, and a table of one day.\<close>

definition sample_row :: "int \<Rightarrow> nat \<Rightarrow> nat \<Rightarrow> real \<Rightarrow> daily_row" where
  "sample_row y m d v =
     \<lparr>timestamp = \<lparr>year = y, month = m, day = d\<rparr>, pm25 = Num v,
      temperature = Num 15, relativehumidity = Num 60, windspeed = Num 8\<rparr>"

definition ramp_table :: "daily_row list" where
  "ramp_table =
     [sample_row 2024 1 1 10, sample_row 2024 1 2 20, sample_row 2024 1 3 30,
      sample_row 2024 1 4 40, sample_row 2024 1 5 50, sample_row 2024 1 6 60,
      sample_row 2024 1 7 70, sample_row 2024 1 8 80, sample_row 2024 1 9 90,
      sample_row 2024 1 10 100]"

definition flat_table :: "daily_row list" where
  "flat_table = map (\<lambda>d. sample_row 2023 12 d 42) [22, 23, 24, 25, 26, 27, 28, 29, 30, 31]"

definition one_day_table :: "daily_row list" where
  "one_day_table = [sample_row 2024 2 28 7]"

text \<open>A model that insists on its own feature names, in order, as scikit-learn does for
  a regressor fitted on a named table; its forecast is always 0.\<close>

definition picky_model :: "string list \<Rightarrow> model" where
  "picky_model names x_pred_df =
     (if map fst x_pred_df = names then Inr (Num 0) else Inl (Raised ''feature names''))"

section \<open>Coordinate resolver\<close>

lemma first_entry_value:
  "(bind (py_first r) (\<lambda>e1.
    bind (py_getitem e1 ''latitude'') (\<lambda>lat.
    bind (py_first r) (\<lambda>e2.
    bind (py_getitem e2 ''longitude'') (\<lambda>lon. Inr (lat, lon))))) = Inr p)
   = (first_entry_ok r \<and> p = spec_coordinates (Body (JObj [(''results'', r)])))"
proof (cases r rule: py_first.cases)
  case (2 x xs)
  then show ?thesis
    by (cases x) (auto simp: bind_def split: option.splits)
qed (auto simp: bind_def)

lemma spec_coordinates_cong:
  assumes "map_of kvs ''results'' = Some r"
  shows "spec_coordinates (Body (JObj kvs)) = spec_coordinates (Body (JObj [(''results'', r)]))"
  using assms by simp

lemma falsy_spec_coordinates:
  assumes "\<not> truthy r" and "map_of kvs ''results'' = Some r"
  shows "spec_coordinates (Body (JObj kvs)) = (JNull, JNull)"
  using assms by (cases r rule: py_first.cases) simp_all

lemma coordinates_of_returns_iff:
  "(coordinates_of resp = Inr p) =
   (geocoding_shape_ok (Body resp) \<and> p = spec_coordinates (Body resp))"
proof (cases resp)
  case (JObj kvs)
  show ?thesis
  proof (cases "map_of kvs ''results''")
    case None
    then show ?thesis
      by (auto simp: JObj coordinates_of_def bind_def)
  next
    case (Some r)
    show ?thesis
    proof (cases "truthy r")
      case False
      with Some falsy_spec_coordinates [OF False Some] show ?thesis
        by (auto simp: JObj coordinates_of_def bind_def)
    next
      case True
      have "coordinates_of resp =
          bind (py_first r) (\<lambda>e1.
          bind (py_getitem e1 ''latitude'') (\<lambda>lat.
          bind (py_first r) (\<lambda>e2.
          bind (py_getitem e2 ''longitude'') (\<lambda>lon. Inr (lat, lon)))))"
        using Some True by (simp add: JObj coordinates_of_def bind_def)
      moreover have "geocoding_shape_ok (Body resp) = first_entry_ok r"
        using Some True by (simp add: JObj)
      ultimately show ?thesis
        using first_entry_value [of r p] spec_coordinates_cong [OF Some]
        by (simp only: JObj)
    qed
  qed
next
  case (JArr xs)
  then show ?thesis
    by (auto simp: coordinates_of_def bind_def)
next
  case (JStr s)
  then show ?thesis
    by (auto simp: coordinates_of_def bind_def)
qed (simp_all add: coordinates_of_def bind_def)

text \<open>
  Claim C8, as amended. \<open>get_city_coordinates\<close> returns to its caller exactly on the
  responses of \<open>geocoding_shape_ok\<close>: a transport failure, a body without \<open>results\<close> or
  with an empty one, a body whose first entry is an object with \<open>latitude\<close> and
  \<open>longitude\<close>. What it returns then is the pair of the first entry, or \<open>(None, None)\<close>
  when there is no first entry. On every other response the lookups of lines 15 to 18
  raise, outside the \<open>try\<close>.
\<close>

theorem get_city_coordinates_returns_iff:
  "(snd (get_city_coordinates w city) = Inr p) =
   (geocoding_shape_ok (w (Geocoding city)) \<and> p = spec_coordinates (w (Geocoding city)))"
proof (cases "w (Geocoding city)")
  case (Failed e)
  then show ?thesis
    by (auto simp: get_city_coordinates_def)
next
  case (Body resp)
  then show ?thesis
    using coordinates_of_returns_iff [of resp p] by (simp add: get_city_coordinates_def)
qed

theorem get_city_coordinates_returns_witness:
  "geocoding_shape_ok (Body delhi) \<and>
   spec_coordinates (Body delhi) = (JNum 28.65, JNum 77.23) \<and>
   snd (get_city_coordinates (\<lambda>r. Body delhi) ''Delhi'') = Inr (JNum 28.65, JNum 77.23) \<and>
   geocoding_shape_ok (Failed ''timed out'') \<and>
   snd (get_city_coordinates (\<lambda>r. Failed ''timed out'') ''Delhi'') = Inr (JNull, JNull)"
proof -
  have a: "geocoding_shape_ok (Body delhi)"
    and b: "spec_coordinates (Body delhi) = (JNum 28.65, JNum 77.23)"
    by (simp_all add: delhi_def)
  have c: "geocoding_shape_ok (Failed ''timed out'')"
    and d: "spec_coordinates (Failed ''timed out'') = (JNull, JNull)"
    by simp_all
  from a b get_city_coordinates_returns_iff [of "\<lambda>r. Body delhi" "''Delhi''" "(JNum 28.65, JNum 77.23)"]
  have e: "snd (get_city_coordinates (\<lambda>r. Body delhi) ''Delhi'') = Inr (JNum 28.65, JNum 77.23)"
    by simp
  from c d get_city_coordinates_returns_iff [of "\<lambda>r. Failed ''timed out''" "''Delhi''" "(JNull, JNull)"]
  have f: "snd (get_city_coordinates (\<lambda>r. Failed ''timed out'') ''Delhi'') = Inr (JNull, JNull)"
    by simp
  from a b c e f show ?thesis
    by (intro conjI)
qed

text \<open>The first entry of \<open>results\<close> has no \<open>latitude\<close>: line 17 raises \<open>KeyError\<close>.\<close>

theorem get_city_coordinates_raises_on_bare_entry:
  "get_city_coordinates w_bare_entry ''Delhi'' =
     ([Get (Geocoding ''Delhi'')], Inl (KeyError ''latitude''))"
  by (simp add: get_city_coordinates_def coordinates_of_def w_bare_entry_def bind_def)

section \<open>Observation fetchers\<close>

lemma resolver_makes_no_data_request:
  "filter is_data_request (fst (get_city_coordinates w city)) = []"
  by (simp add: get_city_coordinates_def split: response.splits)

text \<open>
  Claim C4. When coordinate resolution returns an absent latitude (as it does when the
  city has no match), \<open>fetch_pm25\<close> and \<open>fetch_weather\<close> both return the empty table
  \<^verbatim>\<open>pd.DataFrame()\<close>, and no request to the air-quality or the archive endpoint is
  among their effects.
\<close>

theorem fetchers_skip_data_endpoints_without_coordinates:
  assumes "snd (get_city_coordinates w city) = Inr (JNull, lon)"
  shows "snd (fetch_pm25 mk w city start_date end_date) = Inr empty_frame \<and>
         snd (fetch_weather mk w city start_date end_date) = Inr empty_frame \<and>
         is_empty empty_frame \<and>
         filter is_data_request (fst (fetch_pm25 mk w city start_date end_date)) = [] \<and>
         filter is_data_request (fst (fetch_weather mk w city start_date end_date)) = []"
proof -
  obtain evs where g: "get_city_coordinates w city = (evs, Inr (JNull, lon))"
    using assms by (cases "get_city_coordinates w city") simp
  have "filter is_data_request evs = []"
    using resolver_makes_no_data_request [of w city] g by simp
  with g show ?thesis
    by (simp add: fetch_pm25_def fetch_weather_def is_empty_def empty_frame_def)
qed

theorem fetchers_skip_data_endpoints_witness:
  "snd (get_city_coordinates nowhere ''Atlantis'') = Inr (JNull, JNull) \<and>
   fetch_pm25 list_columns nowhere ''Atlantis'' ''2024-01-01'' ''2024-01-10'' =
     ([Get (Geocoding ''Atlantis'')], Inr empty_frame) \<and>
   fetch_weather list_columns nowhere ''Atlantis'' ''2024-01-01'' ''2024-01-10'' =
     ([Get (Geocoding ''Atlantis'')], Inr empty_frame)"
proof -
  have g: "get_city_coordinates nowhere ''Atlantis'' = ([Get (Geocoding ''Atlantis'')], Inr (JNull, JNull))"
    by (simp add: get_city_coordinates_def coordinates_of_def nowhere_def bind_def)
  then have h: "snd (get_city_coordinates nowhere ''Atlantis'') = Inr (JNull, JNull)"
    by simp
  from fetchers_skip_data_endpoints_without_coordinates [OF h, of list_columns "''2024-01-01''" "''2024-01-10''"]
  have "snd (fetch_pm25 list_columns nowhere ''Atlantis'' ''2024-01-01'' ''2024-01-10'') = Inr empty_frame"
    and "snd (fetch_weather list_columns nowhere ''Atlantis'' ''2024-01-01'' ''2024-01-10'') = Inr empty_frame"
    by simp_all
  moreover have "fst (fetch_pm25 list_columns nowhere ''Atlantis'' ''2024-01-01'' ''2024-01-10'') =
      [Get (Geocoding ''Atlantis'')]"
    and "fst (fetch_weather list_columns nowhere ''Atlantis'' ''2024-01-01'' ''2024-01-10'') =
      [Get (Geocoding ''Atlantis'')]"
    using g by (simp_all add: fetch_pm25_def fetch_weather_def)
  ultimately show ?thesis using h by (simp add: prod_eq_iff)
qed

text \<open>
  Claim C3. The guards of lines 36 and 59 look for \<open>hourly\<close> and for the measured fields,
  not for \<open>time\<close>. On a body whose \<open>hourly\<close> object holds every measured field and no
  \<open>time\<close>, each fetcher passes its guard and raises \<open>KeyError\<close> at
  \<^verbatim>\<open>resp["hourly"]["time"]\<close>, whatever the table constructor would do.
\<close>

theorem fetchers_raise_when_time_is_absent:
  "fetch_pm25 mk w_no_time ''Delhi'' ''2024-01-01'' ''2024-01-10'' =
     ([Get (Geocoding ''Delhi''),
       Get (AirQuality (JNum 28.65) (JNum 77.23) ''2024-01-01'' ''2024-01-10'')],
      Inl (KeyError ''time'')) \<and>
   fetch_weather mk w_no_time ''Delhi'' ''2024-01-01'' ''2024-01-10'' =
     ([Get (Geocoding ''Delhi''),
       Get (Archive (JNum 28.65) (JNum 77.23) ''2024-01-01'' ''2024-01-10'')],
      Inl (KeyError ''time''))"
  by (simp add: fetch_pm25_def fetch_weather_def get_city_coordinates_def coordinates_of_def
      w_no_time_def delhi_def pm25_table_def weather_table_def bind_def)

section \<open>Forecast assembly: the dict in closed form\<close>

lemma iloc_from_end:
  assumes "1 \<le> k" and "k \<le> length xs"
  shows "iloc xs (- int k) = Inr (xs ! (length xs - k))"
proof -
  have neg: "\<not> 0 \<le> - int k" "- int k < 0"
    using assms(1) by simp_all
  have pos: "nat (int (length xs) + - int k) = length xs - k"
    using assms(2) by simp
  show ?thesis
    unfolding iloc_def using neg assms(2) pos by simp
qed

lemma iloc_last:
  assumes "xs \<noteq> []"
  shows "iloc xs (- 1) = Inr (last xs)"
proof -
  have "1 \<le> length xs"
    using assms by (cases xs) simp_all
  then have "iloc xs (- int 1) = Inr (xs ! (length xs - 1))"
    by (intro iloc_from_end) simp_all
  then show ?thesis
    using assms by (simp add: last_conv_nth)
qed

lemma lag_or_last_eq:
  assumes "1 \<le> k"
  shows "lag_or_last t r k = Inr (if k \<le> length t then pm25 (t ! (length t - k)) else pm25 r)"
  using assms by (simp add: lag_or_last_def iloc_from_end bind_def)

lemma rolling3_last:
  assumes "xs \<noteq> []"
  shows "iloc (rolling3_mean xs) (- 1) = Inr (ma3_last xs)"
proof -
  have n: "0 < length xs"
    using assms by simp
  have ne: "rolling3_mean xs \<noteq> []"
    using assms by (simp add: rolling3_mean_def)
  have len: "length (rolling3_mean xs) = length xs"
    by (simp add: rolling3_mean_def)
  have "last (rolling3_mean xs) = rolling3_mean xs ! (length xs - 1)"
    using ne len by (simp add: last_conv_nth)
  also have "\<dots> = (if length xs - 1 < 2 then NaN
       else mean3 (xs ! (length xs - 1 - 2)) (xs ! (length xs - 1 - 1)) (xs ! (length xs - 1)))"
    using n unfolding rolling3_mean_def by (subst nth_map) simp_all
  also have "\<dots> = ma3_last xs"
    using n by (auto simp: ma3_last_def Let_def numeral_2_eq_2 numeral_3_eq_3)
  finally show ?thesis
    using ne by (simp add: iloc_last)
qed

lemma assemble_rows:
  assumes "t \<noteq> []"
  shows "assemble t = Inr
    [(''temperature'', Cell (temperature (last t))),
     (''relativehumidity'', Cell (relativehumidity (last t))),
     (''windspeed'', Cell (windspeed (last t))),
     (''pm25_lag_1'', Cell (pm25 (last t))),
     (''pm25_lag_2'', Cell (if 2 \<le> length t then pm25 (t ! (length t - 2)) else pm25 (last t))),
     (''pm25_lag_3'', Cell (if 3 \<le> length t then pm25 (t ! (length t - 3)) else pm25 (last t))),
     (''pm25_lag_7'', Cell (if 7 \<le> length t then pm25 (t ! (length t - 7)) else pm25 (last t))),
     (''pm25_ma_3'', Cell (ma3_last (map pm25 t))),
     (''dayofyear'', PyInt (dayofyear (add_one_day (timestamp (last t)))))]"
  using assms
  by (simp add: assemble_def iloc_last rolling3_last lag_or_last_eq bind_def Let_def)

lemma assemble_empty: "assemble [] = Inl IndexError"
  by (simp add: assemble_def iloc_def bind_def)

lemma ramp_assembled:
  "assemble ramp_table = Inr
    [(''temperature'', Cell (Num 15)),
     (''relativehumidity'', Cell (Num 60)),
     (''windspeed'', Cell (Num 8)),
     (''pm25_lag_1'', Cell (Num 100)),
     (''pm25_lag_2'', Cell (Num 90)),
     (''pm25_lag_3'', Cell (Num 80)),
     (''pm25_lag_7'', Cell (Num 40)),
     (''pm25_ma_3'', Cell (Num 90)),
     (''dayofyear'', PyInt 11)]"
  by (simp add: assemble_rows ramp_table_def sample_row_def ma3_last_def
      dayofyear_def add_one_day_def days_in_month_def)

section \<open>Calendar\<close>

lemma sum_months_Suc:
  assumes "1 \<le> m"
  shows "sum_list (map f [1..<Suc m]) = sum_list (map f [1..<m]) + (f m :: nat)"
  using assms by simp

lemma days_in_month_pos: "1 \<le> days_in_month y m"
  by (simp add: days_in_month_def)

lemma dayofyear_add_one_day:
  assumes "valid_date d"
  shows "dayofyear (add_one_day d) = (if month d = 12 \<and> day d = 31 then 1 else dayofyear d + 1)"
proof -
  from assms have m: "1 \<le> month d" "month d \<le> 12"
    and dd: "1 \<le> day d" "day d \<le> days_in_month (year d) (month d)"
    by (simp_all add: valid_date_def)
  consider (mid) "day d < days_in_month (year d) (month d)"
    | (eom) "day d = days_in_month (year d) (month d)" "month d < 12"
    | (eoy) "day d = days_in_month (year d) (month d)" "month d = 12"
    using m dd by linarith
  then show ?thesis
  proof cases
    case mid
    then have "\<not> (month d = 12 \<and> day d = 31)"
      by (auto simp: days_in_month_def)
    with mid show ?thesis
      by (simp add: add_one_day_def dayofyear_def)
  next
    case eom
    have "sum_list (map (days_in_month (year d)) [1..<Suc (month d)]) =
          sum_list (map (days_in_month (year d)) [1..<month d]) + days_in_month (year d) (month d)"
      using m(1) by (rule sum_months_Suc)
    with eom show ?thesis
      by (simp add: add_one_day_def dayofyear_def)
  next
    case eoy
    then have "day d = 31"
      by (simp add: days_in_month_def)
    with eoy show ?thesis
      by (simp add: add_one_day_def dayofyear_def)
  qed
qed

lemma valid_add_one_day:
  assumes "valid_date d"
  shows "valid_date (add_one_day d)"
  using assms days_in_month_pos [of "year d" "Suc (month d)"] days_in_month_pos [of "year d + 1" 1]
  by (auto simp: valid_date_def add_one_day_def)

section \<open>Properties of the assembled row\<close>

text \<open>
  Claim C2, as amended. On a daily table of at least 7 rows, \<open>pm25_lag_7\<close> is the pm25 of
  the seventh row counted from the end, \<^verbatim>\<open>df_feats.iloc[-7]\<close>: the row six rows
  before the last row, seven days before the day being forecast.
\<close>

theorem pm25_lag_7_is_seventh_from_end:
  assumes "7 \<le> length df_feats"
  shows "\<exists>x_pred. assemble df_feats = Inr x_pred \<and>
           map_of x_pred ''pm25_lag_7'' = Some (Cell (pm25 (df_feats ! (length df_feats - 7))))"
proof -
  from assms have "df_feats \<noteq> []"
    by auto
  with assms show ?thesis
    by (simp add: assemble_rows)
qed

theorem pm25_lag_7_witness:
  "7 \<le> length ramp_table \<and>
   (\<exists>x_pred. assemble ramp_table = Inr x_pred \<and>
      map_of x_pred ''pm25_lag_7'' = Some (Cell (pm25 (ramp_table ! (length ramp_table - 7))))) \<and>
   pm25 (ramp_table ! (length ramp_table - 7)) = Num 40"
proof -
  have len: "7 \<le> length ramp_table"
    by (simp add: ramp_table_def)
  have "pm25 (ramp_table ! (length ramp_table - 7)) = Num 40"
    by (simp add: ramp_table_def sample_row_def)
  with len pm25_lag_7_is_seventh_from_end [OF len] show ?thesis
    by blast
qed

text \<open>
  Ten days with pm25 10, 20, ..., 100: \<open>pm25_lag_7\<close> is 40, the value of the fourth day,
  while the row seven rows before the last row is the third day, with 30.
\<close>

theorem pm25_lag_7_is_not_seven_rows_before_last:
  "7 \<le> length ramp_table \<and>
   map_of (projr (assemble ramp_table)) ''pm25_lag_7'' = Some (Cell (Num 40)) \<and>
   pm25 (ramp_table ! (length ramp_table - 1 - 7)) = Num 30 \<and>
   map_of (projr (assemble ramp_table)) ''pm25_lag_7'' \<noteq>
     Some (Cell (pm25 (ramp_table ! (length ramp_table - 1 - 7))))"
proof -
  have "pm25 (ramp_table ! (length ramp_table - 1 - 7)) = Num 30" "7 \<le> length ramp_table"
    by (simp_all add: ramp_table_def sample_row_def)
  then show ?thesis
    by (simp add: ramp_assembled)
qed

text \<open>
  Claim C6. On every table that reaches assembly (any table with a last row, whose
  timestamp is a calendar day), \<open>dayofyear\<close> is the ordinal day of the year of the day
  after the last row's timestamp: one more than the ordinal of the last day, and 1 when the
  last day is December 31.
\<close>

theorem dayofyear_is_next_day:
  assumes "df_feats \<noteq> []" and "valid_date (timestamp (last df_feats))"
  shows "\<exists>x_pred. assemble df_feats = Inr x_pred \<and>
           map_of x_pred ''dayofyear'' =
             Some (PyInt (dayofyear (add_one_day (timestamp (last df_feats))))) \<and>
           valid_date (add_one_day (timestamp (last df_feats))) \<and>
           dayofyear (add_one_day (timestamp (last df_feats))) =
             (if month (timestamp (last df_feats)) = 12 \<and> day (timestamp (last df_feats)) = 31
              then 1 else dayofyear (timestamp (last df_feats)) + 1)"
  using assms by (simp add: assemble_rows dayofyear_add_one_day valid_add_one_day)

theorem dayofyear_witness:
  "flat_table \<noteq> [] \<and> valid_date (timestamp (last flat_table)) \<and>
   timestamp (last flat_table) = \<lparr>year = 2023, month = 12, day = 31\<rparr> \<and>
   (\<exists>x_pred. assemble flat_table = Inr x_pred \<and> map_of x_pred ''dayofyear'' = Some (PyInt 1))"
proof -
  have ne: "flat_table \<noteq> []"
    by (simp add: flat_table_def)
  have ts: "timestamp (last flat_table) = \<lparr>year = 2023, month = 12, day = 31\<rparr>"
    by (simp add: flat_table_def sample_row_def)
  have v: "valid_date (timestamp (last flat_table))"
    by (simp add: ts valid_date_def days_in_month_def)
  from dayofyear_is_next_day [OF ne v] ne ts v show ?thesis
    by auto
qed

text \<open>
  Claim C7, as amended. For k = 2, 3 and 7, the expressions of lines 107 to 109, taken on
  a table with a last row and fewer than k rows, give the pm25 of the last row as
  \<open>pm25_lag_k\<close>. The button handler does not take them on such a table: the guard of
  line 97 ends every table of fewer than 10 rows with the warning, and nothing is
  assembled. On every table that is assembled, \<open>pm25_lag_k\<close> is the pm25 of the k-th row
  from the end.
\<close>

theorem lags_fall_back_only_outside_the_guard:
  "(df_feats \<noteq> [] \<longrightarrow>
      (\<exists>x_pred. assemble df_feats = Inr x_pred \<and>
         (length df_feats < 2 \<longrightarrow> map_of x_pred ''pm25_lag_2'' = Some (Cell (pm25 (last df_feats)))) \<and>
         (length df_feats < 3 \<longrightarrow> map_of x_pred ''pm25_lag_3'' = Some (Cell (pm25 (last df_feats)))) \<and>
         (length df_feats < 7 \<longrightarrow> map_of x_pred ''pm25_lag_7'' = Some (Cell (pm25 (last df_feats)))))) \<and>
   (length df_feats < 10 \<longrightarrow>
      forecast_block artifact city df_feats =
        ([St_warning ''Not enough daily rows after feature creation for stable prediction.''], None)) \<and>
   (10 \<le> length df_feats \<longrightarrow>
      (\<exists>x_pred. assemble df_feats = Inr x_pred \<and>
         map_of x_pred ''pm25_lag_2'' = Some (Cell (pm25 (df_feats ! (length df_feats - 2)))) \<and>
         map_of x_pred ''pm25_lag_3'' = Some (Cell (pm25 (df_feats ! (length df_feats - 3)))) \<and>
         map_of x_pred ''pm25_lag_7'' = Some (Cell (pm25 (df_feats ! (length df_feats - 7))))))"
proof (intro conjI impI)
  assume "df_feats \<noteq> []"
  then show "\<exists>x_pred. assemble df_feats = Inr x_pred \<and>
         (length df_feats < 2 \<longrightarrow> map_of x_pred ''pm25_lag_2'' = Some (Cell (pm25 (last df_feats)))) \<and>
         (length df_feats < 3 \<longrightarrow> map_of x_pred ''pm25_lag_3'' = Some (Cell (pm25 (last df_feats)))) \<and>
         (length df_feats < 7 \<longrightarrow> map_of x_pred ''pm25_lag_7'' = Some (Cell (pm25 (last df_feats))))"
    by (simp add: assemble_rows)
next
  assume "length df_feats < 10"
  then show "forecast_block artifact city df_feats =
        ([St_warning ''Not enough daily rows after feature creation for stable prediction.''], None)"
    by (simp add: forecast_block_def)
next
  assume len: "10 \<le> length df_feats"
  then have "df_feats \<noteq> []"
    by auto
  with len show "\<exists>x_pred. assemble df_feats = Inr x_pred \<and>
         map_of x_pred ''pm25_lag_2'' = Some (Cell (pm25 (df_feats ! (length df_feats - 2)))) \<and>
         map_of x_pred ''pm25_lag_3'' = Some (Cell (pm25 (df_feats ! (length df_feats - 3)))) \<and>
         map_of x_pred ''pm25_lag_7'' = Some (Cell (pm25 (df_feats ! (length df_feats - 7))))"
    by (simp add: assemble_rows)
qed

theorem lags_fall_back_witness:
  "one_day_table \<noteq> [] \<and> length one_day_table < 2 \<and> length one_day_table < 3 \<and>
   length one_day_table < 7 \<and> length one_day_table < 10 \<and>
   pm25 (last one_day_table) = Num 7 \<and>
   (\<exists>x_pred. assemble one_day_table = Inr x_pred \<and>
      map_of x_pred ''pm25_lag_2'' = Some (Cell (Num 7)) \<and>
      map_of x_pred ''pm25_lag_3'' = Some (Cell (Num 7)) \<and>
      map_of x_pred ''pm25_lag_7'' = Some (Cell (Num 7))) \<and>
   forecast_block (Inr (picky_model x_pred_keys, x_pred_keys)) ''Delhi'' one_day_table =
     ([St_warning ''Not enough daily rows after feature creation for stable prediction.''], None) \<and>
   10 \<le> length ramp_table \<and>
   pm25 (ramp_table ! (length ramp_table - 2)) = Num 90 \<and>
   pm25 (ramp_table ! (length ramp_table - 3)) = Num 80 \<and>
   pm25 (ramp_table ! (length ramp_table - 7)) = Num 40 \<and>
   (\<exists>x_pred. assemble ramp_table = Inr x_pred \<and>
      map_of x_pred ''pm25_lag_2'' = Some (Cell (Num 90)) \<and>
      map_of x_pred ''pm25_lag_3'' = Some (Cell (Num 80)) \<and>
      map_of x_pred ''pm25_lag_7'' = Some (Cell (Num 40)))"
proof -
  have ne: "one_day_table \<noteq> []" and len: "length one_day_table = 1"
    and p: "pm25 (last one_day_table) = Num 7"
    by (simp_all add: one_day_table_def sample_row_def)
  have short: "length one_day_table < 10"
    by (simp add: len)
  have long: "10 \<le> length ramp_table"
    by (simp add: ramp_table_def)
  have r: "pm25 (ramp_table ! (length ramp_table - 2)) = Num 90"
    "pm25 (ramp_table ! (length ramp_table - 3)) = Num 80"
    "pm25 (ramp_table ! (length ramp_table - 7)) = Num 40"
    by (simp_all add: ramp_table_def sample_row_def)
  have a: "\<exists>x_pred. assemble one_day_table = Inr x_pred \<and>
      map_of x_pred ''pm25_lag_2'' = Some (Cell (Num 7)) \<and>
      map_of x_pred ''pm25_lag_3'' = Some (Cell (Num 7)) \<and>
      map_of x_pred ''pm25_lag_7'' = Some (Cell (Num 7))"
    using lags_fall_back_only_outside_the_guard [THEN conjunct1, THEN mp, OF ne] len p
    by simp
  have b: "forecast_block (Inr (picky_model x_pred_keys, x_pred_keys)) ''Delhi'' one_day_table =
     ([St_warning ''Not enough daily rows after feature creation for stable prediction.''], None)"
    by (rule lags_fall_back_only_outside_the_guard
        [THEN conjunct2, THEN conjunct1, THEN mp, OF short])
  have c: "\<exists>x_pred. assemble ramp_table = Inr x_pred \<and>
      map_of x_pred ''pm25_lag_2'' = Some (Cell (Num 90)) \<and>
      map_of x_pred ''pm25_lag_3'' = Some (Cell (Num 80)) \<and>
      map_of x_pred ''pm25_lag_7'' = Some (Cell (Num 40))"
    using lags_fall_back_only_outside_the_guard [THEN conjunct2, THEN conjunct2, THEN mp, OF long]
    unfolding r .
  from ne len short p a b long r c show ?thesis
    by simp
qed

text \<open>
  The empty table has fewer than 2 rows, and line 101 raises on it. The table of one day
  has fewer than 2 rows, and the handler shows the warning and assembles nothing.
\<close>

theorem short_tables_are_not_assembled:
  "length ([] :: daily_row list) < 2 \<and>
   assemble [] = Inl IndexError \<and>
   length one_day_table < 2 \<and>
   forecast_block (Inr (picky_model x_pred_keys, x_pred_keys)) ''Delhi'' one_day_table =
     ([St_warning ''Not enough daily rows after feature creation for stable prediction.''], None)"
  by (simp add: assemble_empty forecast_block_def one_day_table_def)

text \<open>
  Claim C9. On a table of at least 10 rows whose pm25 is V in every row, the assembled
  row is the last row's temperature, relativehumidity and windspeed, then V for
  \<open>pm25_lag_1\<close>, \<open>pm25_lag_2\<close>, \<open>pm25_lag_3\<close>, \<open>pm25_lag_7\<close> and \<open>pm25_ma_3\<close>, then the day of
  the year of the day after the last row's timestamp.
\<close>

theorem constant_pm25_row:
  assumes "10 \<le> length df_feats" and "\<forall>r \<in> set df_feats. pm25 r = V"
  shows "assemble df_feats = Inr
    [(''temperature'', Cell (temperature (last df_feats))),
     (''relativehumidity'', Cell (relativehumidity (last df_feats))),
     (''windspeed'', Cell (windspeed (last df_feats))),
     (''pm25_lag_1'', Cell V),
     (''pm25_lag_2'', Cell V),
     (''pm25_lag_3'', Cell V),
     (''pm25_lag_7'', Cell V),
     (''pm25_ma_3'', Cell V),
     (''dayofyear'', PyInt (dayofyear (add_one_day (timestamp (last df_feats)))))]"
proof -
  from assms(1) have ne: "df_feats \<noteq> []"
    by auto
  have nth: "pm25 (df_feats ! i) = V" if "i < length df_feats" for i
    using assms(2) that by simp
  have lastV: "pm25 (last df_feats) = V"
    using assms(2) ne by simp
  have "mean3 V V V = V"
    by (cases V) simp_all
  then have ma: "ma3_last (map pm25 df_feats) = V"
    using assms(1) nth by (simp add: ma3_last_def Let_def)
  show ?thesis
    using assms(1) ne nth lastV ma by (simp add: assemble_rows)
qed

theorem constant_pm25_row_witness:
  "10 \<le> length flat_table \<and> pm25 ` set flat_table = {Num 42} \<and>
   assemble flat_table = Inr
    [(''temperature'', Cell (Num 15)),
     (''relativehumidity'', Cell (Num 60)),
     (''windspeed'', Cell (Num 8)),
     (''pm25_lag_1'', Cell (Num 42)),
     (''pm25_lag_2'', Cell (Num 42)),
     (''pm25_lag_3'', Cell (Num 42)),
     (''pm25_lag_7'', Cell (Num 42)),
     (''pm25_ma_3'', Cell (Num 42)),
     (''dayofyear'', PyInt 1)]"
  using constant_pm25_row [of flat_table "Num 42"]
  by (simp add: flat_table_def sample_row_def dayofyear_def add_one_day_def days_in_month_def)

text \<open>
  Claim C10. On every table that reaches assembly (any table with a last row), the keys
  of \<open>X_pred\<close> are the nine keys \<open>temperature\<close>, \<open>relativehumidity\<close>, \<open>windspeed\<close>,
  \<open>pm25_lag_1\<close>, \<open>pm25_lag_2\<close>, \<open>pm25_lag_3\<close>, \<open>pm25_lag_7\<close>, \<open>pm25_ma_3\<close> and \<open>dayofyear\<close>,
  each once, whatever the length and the contents of the table.
\<close>

theorem x_pred_has_the_nine_keys:
  assumes "df_feats \<noteq> []"
  shows "\<exists>x_pred. assemble df_feats = Inr x_pred \<and> map fst x_pred = x_pred_keys \<and>
           distinct x_pred_keys \<and> length x_pred_keys = 9"
  using assms by (simp add: assemble_rows x_pred_keys_def)

theorem x_pred_keys_witness:
  "one_day_table \<noteq> [] \<and>
   (\<exists>x_pred. assemble one_day_table = Inr x_pred \<and> map fst x_pred = x_pred_keys) \<and>
   ramp_table \<noteq> [] \<and>
   (\<exists>x_pred. assemble ramp_table = Inr x_pred \<and> map fst x_pred = x_pred_keys)"
proof -
  have a: "one_day_table \<noteq> []" and b: "ramp_table \<noteq> []"
    by (simp_all add: one_day_table_def ramp_table_def)
  from x_pred_has_the_nine_keys [OF a] x_pred_has_the_nine_keys [OF b] a b show ?thesis
    by blast
qed

section \<open>The guard on the length of the table\<close>

text \<open>
  Claim C5. On a daily table of fewer than 10 rows the forecast block only shows the
  warning: it ends normally, shows no error, does not load the model and does not ask it
  for a prediction. A run that loads the model or asks for a prediction had a table of at
  least 10 rows.
\<close>

theorem short_table_warns_and_skips_prediction:
  "(length df_feats < 10 \<longrightarrow>
      forecast_block artifact city df_feats =
        ([St_warning ''Not enough daily rows after feature creation for stable prediction.''], None)) \<and>
   ((Load_model \<in> set (fst (forecast_block artifact city df_feats)) \<or>
     (\<exists>x_pred_df. Predict x_pred_df \<in> set (fst (forecast_block artifact city df_feats)))) \<longrightarrow>
      10 \<le> length df_feats)"
  by (auto simp: forecast_block_def)

theorem short_table_warns_witness:
  "length one_day_table < 10 \<and>
   forecast_block (Inr (picky_model x_pred_keys, x_pred_keys)) ''Delhi'' one_day_table =
     ([St_warning ''Not enough daily rows after feature creation for stable prediction.''], None) \<and>
   Load_model \<in> set (fst (forecast_block (Inr (picky_model x_pred_keys, x_pred_keys)) ''Delhi'' ramp_table)) \<and>
   10 \<le> length ramp_table"
proof -
  have a: "length one_day_table < 10"
    by (simp add: one_day_table_def)
  have b: "Load_model \<in> set (fst (forecast_block (Inr (picky_model x_pred_keys, x_pred_keys)) ''Delhi'' ramp_table))"
    by (simp add: forecast_block_def ramp_table_def split: sum.splits)
  from a b
    short_table_warns_and_skips_prediction
      [of one_day_table "Inr (picky_model x_pred_keys, x_pred_keys)" "''Delhi''"]
    short_table_warns_and_skips_prediction
      [of ramp_table "Inr (picky_model x_pred_keys, x_pred_keys)" "''Delhi''"]
  show ?thesis
    by blast
qed

lemma fetch_events_no_model:
  "ev \<in> set (fst (fetch_pm25 mk w city s e)) \<Longrightarrow> (\<exists>r. ev = Get r) \<or> (\<exists>m. ev = St_error m)"
  "ev \<in> set (fst (fetch_weather mk w city s e)) \<Longrightarrow> (\<exists>r. ev = Get r) \<or> (\<exists>m. ev = St_error m)"
  by (auto simp: get_city_coordinates_def fetch_pm25_def fetch_weather_def
      split: response.splits prod.splits sum.splits if_splits)

lemma forecast_block_attempt:
  assumes "Load_model \<in> set (fst (forecast_block artifact city t)) \<or>
           (\<exists>x. Predict x \<in> set (fst (forecast_block artifact city t)))"
  shows "10 \<le> length t"
  using assms by (auto simp: forecast_block_def split: if_splits)

lemma on_button_attempt:
  assumes "Load_model \<in> set (fst (on_button mk w mdf artifact city s e)) \<or>
           (\<exists>x. Predict x \<in> set (fst (on_button mk w mdf artifact city s e)))"
  shows "\<exists>pm met t. mdf pm met = Inr t \<and> 10 \<le> length t"
proof -
  obtain evs1 r1 where f1: "fetch_pm25 mk w city s e = (evs1, r1)"
    by (cases "fetch_pm25 mk w city s e")
  obtain evs2 r2 where f2: "fetch_weather mk w city s e = (evs2, r2)"
    by (cases "fetch_weather mk w city s e")
  have n1: "Load_model \<notin> set evs1" "\<And>x. Predict x \<notin> set evs1"
    using fetch_events_no_model(1) [of _ mk w city s e] f1 by fastforce+
  have n2: "Load_model \<notin> set evs2" "\<And>x. Predict x \<notin> set evs2"
    using fetch_events_no_model(2) [of _ mk w city s e] f2 by fastforce+
  from assms f1 f2 n1 n2 obtain pm met t where "mdf pm met = Inr t"
    and "Load_model \<in> set (fst (forecast_block artifact city t)) \<or>
         (\<exists>x. Predict x \<in> set (fst (forecast_block artifact city t)))"
    by (auto simp: on_button_def split: sum.splits if_splits prod.splits)
  then show ?thesis
    using forecast_block_attempt by blast
qed

section \<open>Column selection and the model\<close>

lemma assemble_keys:
  assumes "t \<noteq> []"
  shows "\<exists>x_pred. assemble t = Inr x_pred \<and> map fst x_pred = x_pred_keys"
  using assms by (simp add: assemble_rows x_pred_keys_def)

lemma select_columns_ok:
  assumes "set fc \<subseteq> fst ` set x"
  shows "select_columns fc x = Inr (map (\<lambda>c. (c, the (map_of x c))) fc)"
proof -
  have "filter (\<lambda>c. map_of x c = None) fc = []"
    using assms by (auto simp: filter_empty_conv map_of_eq_None_iff)
  then show ?thesis
    by (simp add: select_columns_def)
qed

lemma select_columns_missing:
  assumes "\<not> set fc \<subseteq> fst ` set x"
  shows "select_columns fc x = Inl (NotInIndex (filter (\<lambda>c. c \<notin> fst ` set x) fc))"
proof -
  have "filter (\<lambda>c. map_of x c = None) fc = filter (\<lambda>c. c \<notin> fst ` set x) fc"
    by (simp add: map_of_eq_None_iff)
  moreover have "filter (\<lambda>c. c \<notin> fst ` set x) fc \<noteq> []"
    using assms by (auto simp: filter_empty_conv)
  ultimately show ?thesis
    by (simp add: select_columns_def)
qed

lemma selected_values:
  assumes "set fc \<subseteq> fst ` set x" and "c \<in> set fc"
  shows "map_of (map (\<lambda>c. (c, the (map_of x c))) fc) c = map_of x c"
proof -
  from assms have "c \<in> fst ` set x"
    by auto
  then obtain v where "map_of x c = Some v"
    by (cases "map_of x c") (auto simp: map_of_eq_None_iff)
  with assms(2) show ?thesis
    by (simp add: map_of_map_restrict)
qed

text \<open>
  Claim C1, as amended. On a table of at least 10 rows and a loaded model with feature
  list \<open>feature_cols\<close>: when the list names a column that is not one of the nine assembled
  columns, the request ends with the \<open>KeyError\<close> of the column selection, after the model
  was loaded and before it is asked for a prediction. When every name of the list is an
  assembled column, the selection succeeds, whatever the order of the list and whichever
  assembled columns it leaves out: the model is asked for a prediction on a row whose
  columns are the list, in the order of the list, with the assembled values.
\<close>

theorem selection_follows_feature_list:
  assumes "10 \<le> length df_feats"
  shows
    "(\<not> set feature_cols \<subseteq> set x_pred_keys \<longrightarrow>
        forecast_block (Inr (mdl, feature_cols)) city df_feats =
          ([Load_model], Some (NotInIndex (filter (\<lambda>c. c \<notin> set x_pred_keys) feature_cols)))) \<and>
     (set feature_cols \<subseteq> set x_pred_keys \<longrightarrow>
        (\<exists>x_pred x_pred_df.
           assemble df_feats = Inr x_pred \<and>
           select_columns feature_cols x_pred = Inr x_pred_df \<and>
           map fst x_pred_df = feature_cols \<and>
           (\<forall>c \<in> set feature_cols. map_of x_pred_df c = map_of x_pred c) \<and>
           predict_step mdl feature_cols x_pred = mdl x_pred_df \<and>
           Predict x_pred_df \<in> set (fst (forecast_block (Inr (mdl, feature_cols)) city df_feats))))"
proof -
  from assms have "df_feats \<noteq> []"
    by auto
  then obtain x_pred where x: "assemble df_feats = Inr x_pred" and "map fst x_pred = x_pred_keys"
    using assemble_keys by blast
  then have keys: "fst ` set x_pred = set x_pred_keys"
    by (simp flip: set_map)
  have len: "\<not> length df_feats < 10"
    using assms by simp
  show ?thesis
  proof (intro conjI impI)
    assume "\<not> set feature_cols \<subseteq> set x_pred_keys"
    then have "\<not> set feature_cols \<subseteq> fst ` set x_pred"
      by (simp add: keys)
    then have "select_columns feature_cols x_pred =
        Inl (NotInIndex (filter (\<lambda>c. c \<notin> set x_pred_keys) feature_cols))"
      using select_columns_missing [of feature_cols x_pred] by (simp add: keys)
    then show "forecast_block (Inr (mdl, feature_cols)) city df_feats =
        ([Load_model], Some (NotInIndex (filter (\<lambda>c. c \<notin> set x_pred_keys) feature_cols)))"
      using len x by (simp add: forecast_block_def)
  next
    assume "set feature_cols \<subseteq> set x_pred_keys"
    then have sub: "set feature_cols \<subseteq> fst ` set x_pred"
      by (simp add: keys)
    define x_pred_df where "x_pred_df = map (\<lambda>c. (c, the (map_of x_pred c))) feature_cols"
    have sel: "select_columns feature_cols x_pred = Inr x_pred_df"
      unfolding x_pred_df_def using sub by (rule select_columns_ok)
    have names: "map fst x_pred_df = feature_cols"
      unfolding x_pred_df_def by (induction feature_cols) simp_all
    have vals: "\<forall>c \<in> set feature_cols. map_of x_pred_df c = map_of x_pred c"
      unfolding x_pred_df_def using selected_values [OF sub] by blast
    have pred: "predict_step mdl feature_cols x_pred = mdl x_pred_df"
      unfolding predict_step_def sel bind_def by simp
    have asked: "Predict x_pred_df \<in> set (fst (forecast_block (Inr (mdl, feature_cols)) city df_feats))"
      using len x sel by (cases "mdl x_pred_df") (simp_all add: forecast_block_def)
    from x sel names vals pred asked
    show "\<exists>x_pred x_pred_df.
           assemble df_feats = Inr x_pred \<and>
           select_columns feature_cols x_pred = Inr x_pred_df \<and>
           map fst x_pred_df = feature_cols \<and>
           (\<forall>c \<in> set feature_cols. map_of x_pred_df c = map_of x_pred c) \<and>
           predict_step mdl feature_cols x_pred = mdl x_pred_df \<and>
           Predict x_pred_df \<in> set (fst (forecast_block (Inr (mdl, feature_cols)) city df_feats))"
      by (intro exI [of _ x_pred] exI [of _ x_pred_df] conjI)
  qed
qed

lemma ramp_table_facts:
  "length ramp_table = 10" "last ramp_table = sample_row 2024 1 10 100"
  by (simp_all add: ramp_table_def)

theorem selection_follows_feature_list_witness:
  "10 \<le> length ramp_table \<and>
   \<not> set [''humidity''] \<subseteq> set x_pred_keys \<and>
   forecast_block (Inr (picky_model [''humidity''], [''humidity''])) ''Delhi'' ramp_table =
     ([Load_model], Some (NotInIndex [''humidity''])) \<and>
   set [''dayofyear'', ''temperature''] \<subseteq> set x_pred_keys \<and>
   (\<exists>x_pred_df. Predict x_pred_df \<in> set (fst (forecast_block
      (Inr (picky_model [''dayofyear'', ''temperature''], [''dayofyear'', ''temperature'']))
      ''Delhi'' ramp_table)) \<and> map fst x_pred_df = [''dayofyear'', ''temperature''])"
proof -
  have len: "10 \<le> length ramp_table"
    by (simp add: ramp_table_facts)
  have a: "\<not> set [''humidity''] \<subseteq> set x_pred_keys"
    by (simp add: x_pred_keys_def)
  have b: "set [''dayofyear'', ''temperature''] \<subseteq> set x_pred_keys"
    by (simp add: x_pred_keys_def)
  have f: "filter (\<lambda>c. c \<notin> set x_pred_keys) [''humidity''] = [''humidity'']"
    by (simp add: x_pred_keys_def)
  have "forecast_block (Inr (picky_model [''humidity''], [''humidity''])) ''Delhi'' ramp_table =
     ([Load_model], Some (NotInIndex (filter (\<lambda>c. c \<notin> set x_pred_keys) [''humidity''])))"
    by (rule selection_follows_feature_list [OF len, THEN conjunct1, THEN mp, OF a])
  then have c: "forecast_block (Inr (picky_model [''humidity''], [''humidity''])) ''Delhi'' ramp_table =
     ([Load_model], Some (NotInIndex [''humidity'']))"
    unfolding f .
  obtain x_pred_df where
    "map fst x_pred_df = [''dayofyear'', ''temperature'']"
    "Predict x_pred_df \<in> set (fst (forecast_block
      (Inr (picky_model [''dayofyear'', ''temperature''], [''dayofyear'', ''temperature'']))
      ''Delhi'' ramp_table))"
    using selection_follows_feature_list [OF len, THEN conjunct2, THEN mp, OF b,
        of "picky_model [''dayofyear'', ''temperature'']" "''Delhi''"]
    by (elim exE conjE)
  then have d: "\<exists>x_pred_df. Predict x_pred_df \<in> set (fst (forecast_block
      (Inr (picky_model [''dayofyear'', ''temperature''], [''dayofyear'', ''temperature'']))
      ''Delhi'' ramp_table)) \<and> map fst x_pred_df = [''dayofyear'', ''temperature'']"
    by (intro exI [of _ x_pred_df] conjI)
  from len a b c d show ?thesis
    by (intro conjI)
qed

text \<open>
  A model whose feature list is \<open>dayofyear\<close>, \<open>temperature\<close>: two of the nine assembled
  columns, in another order. The request goes through and shows the forecast.
\<close>

theorem reordered_subset_is_predicted:
  "map fst (projr (assemble ramp_table)) \<noteq> [''dayofyear'', ''temperature''] \<and>
   predict_step (picky_model [''dayofyear'', ''temperature'']) [''dayofyear'', ''temperature'']
     (projr (assemble ramp_table)) = Inr (Num 0) \<and>
   forecast_block (Inr (picky_model [''dayofyear'', ''temperature''], [''dayofyear'', ''temperature'']))
     ''Delhi'' ramp_table =
     ([Load_model, Predict [(''dayofyear'', PyInt 11), (''temperature'', Cell (Num 15))],
       St_write \<lparr>year = 2024, month = 1, day = 10\<rparr> (Num 100), St_success (Num 0),
       St_line_chart (map (\<lambda>r. (timestamp r, pm25 r)) ramp_table),
       St_download_button ''Delhi_daily_features.csv''], None)"
  by (simp add: ramp_table_facts ramp_assembled predict_step_def select_columns_def
      picky_model_def bind_def forecast_block_def sample_row_def)

end
